theory Spec2Isabelle
  imports Main "HOL-Library.Word"
begin

section \<open>The memory the program runs on\<close>

text \<open>
  \<^verbatim>\<open>size_t\<close> is a 64-bit unsigned integer: \<open>+\<close> and \<open>*\<close> wrap around, \<open><\<close> and
  \<open>max\<close> compare unsigned, exactly as the expressions \<^verbatim>\<open>used_ + n\<close> and
  \<^verbatim>\<open>capacity_ * 2\<close> of the source do.

  A pointer is a 64-bit byte address; \<open>0\<close> is \<^verbatim>\<open>nullptr\<close>. The program is a template
  over the element type \<^verbatim>\<open>T\<close>; what it needs of \<^verbatim>\<open>T\<close> is \<^verbatim>\<open>sizeof(T)\<close>, which every
  operation below takes as its first argument \<open>sz\<close>. Pointer arithmetic \<^verbatim>\<open>p + n\<close> on a
  \<^verbatim>\<open>T*\<close> adds \<open>n * sizeof(T)\<close> bytes to the address, modulo \<open>2 ^ 64\<close>, as the machine
  does.
\<close>

type_synonym size_t = "64 word"
type_synonym ptr = "64 word"

definition nullptr :: ptr where
  "nullptr = 0"

definition ptr_add :: "size_t \<Rightarrow> ptr \<Rightarrow> size_t \<Rightarrow> ptr" where
  "ptr_add sz p n = p + n * sz"

text \<open>
  The three things the source throws: \<^verbatim>\<open>std::bad_alloc\<close> out of \<^verbatim>\<open>::operator new\<close>, and
  the two \<^verbatim>\<open>std::runtime_error\<close>s of \<^verbatim>\<open>deallocate\<close> and of the allocator's \<^verbatim>\<open>resize\<close>.
\<close>

datatype error =
    Bad_alloc
  | Not_owned      \<comment> \<open>"Attempted to deallocate memory not owned by allocator"\<close>
  | Bad_capacity   \<comment> \<open>"New capacity must be greater than the number of used elements"\<close>

text \<open>
  A call either returns a value or throws; both leave a state behind (the object the
  member function ran on and the heap), and a thrown exception leaves the state as it was
  at the \<^verbatim>\<open>throw\<close>.
\<close>

datatype ('r, 's) outcome = Raise error 's | Return 'r 's

fun raised :: "('r, 's) outcome \<Rightarrow> error option" where
  "raised (Raise e s) = Some e"
| "raised (Return r s) = None"

fun state_of :: "('r, 's) outcome \<Rightarrow> 's" where
  "state_of (Raise e s) = s"
| "state_of (Return r s) = s"

text \<open>
  The heap of the C++ runtime. \<open>cells\<close> holds the object living at each address, \<open>None\<close>
  where no object lives (raw, destroyed or released storage, whose content is
  indeterminate). \<open>blocks\<close> lists the live blocks of \<^verbatim>\<open>::operator new\<close> (base address
  and number of bytes), \<open>brk\<close> is the lowest address never handed out, and \<open>limit\<close> the
  end of the memory the system can provide: \<^verbatim>\<open>::operator new\<close> throws
  \<^verbatim>\<open>std::bad_alloc\<close> when the block and the 16 bytes kept free behind it would not
  end below it.

  A new block starts at \<open>brk\<close>, so it is disjoint from every block handed out before it,
  which is all that C++ promises about its address; a request of 0 bytes gets a block of
  0 bytes at an address of its own.
\<close>

record 'a heap =
  cells :: "ptr \<rightharpoonup> 'a"
  blocks :: "(ptr \<times> size_t) list"
  brk :: ptr
  limit :: ptr

definition empty_heap :: "ptr \<Rightarrow> 'a heap" where
  "empty_heap lim = \<lparr>cells = Map.empty, blocks = [], brk = 16, limit = lim\<rparr>"

definition operator_new :: "size_t \<Rightarrow> 'a heap \<Rightarrow> (ptr, 'a heap) outcome" where
  "operator_new bytes h =
     (if unat (brk h) + unat bytes + 16 \<le> unat (limit h)
      then Return (brk h) (h\<lparr>blocks := (brk h, bytes) # blocks h, brk := brk h + bytes + 16\<rparr>)
      else Raise Bad_alloc h)"

text \<open>
  \<^verbatim>\<open>::operator delete(p)\<close> releases the block that starts at \<open>p\<close>; what its bytes held
  is gone. On an address that is no live block C++ leaves the behaviour undefined; the
  model leaves the heap as it is.
\<close>

definition operator_delete :: "ptr \<Rightarrow> 'a heap \<Rightarrow> 'a heap" where
  "operator_delete p h =
     (case map_of (blocks h) p of
        None \<Rightarrow> h
      | Some bytes \<Rightarrow>
          h\<lparr>cells := (\<lambda>q. if p \<le> q \<and> q - p < bytes then None else cells h q),
            blocks := filter (\<lambda>b. fst b \<noteq> p) (blocks h)\<rparr>)"

text \<open>Placement new at \<open>p\<close>, and the destructor call \<^verbatim>\<open>p->~T()\<close>.\<close>

definition construct_at :: "ptr \<Rightarrow> 'a \<Rightarrow> 'a heap \<Rightarrow> 'a heap" where
  "construct_at p v h = h\<lparr>cells := (cells h)(p \<mapsto> v)\<rparr>"

definition destroy_at :: "ptr \<Rightarrow> 'a heap \<Rightarrow> 'a heap" where
  "destroy_at p h = h\<lparr>cells := (cells h)(p := None)\<rparr>"

text \<open>
  \<^verbatim>\<open>for (size_t i = 0; i < n; ++i) (p + i)->~T();\<close> The loops of both \<^verbatim>\<open>clear\<close>
  functions, by recursion on the number of objects left, in index order; the address
  moves on by \<^verbatim>\<open>sizeof(T)\<close> at each step.
\<close>

fun destroy_n :: "size_t \<Rightarrow> ptr \<Rightarrow> nat \<Rightarrow> 'a heap \<Rightarrow> 'a heap" where
  "destroy_n sz p 0 h = h"
| "destroy_n sz p (Suc n) h = destroy_n sz (p + sz) n (destroy_at p h)"

text \<open>
  \<^verbatim>\<open>std::uninitialized_move(first, first + n, dest)\<close>: object by object, in index order,
  the object at the source is moved into the destination. A source address that holds no
  object (never constructed, or in a released block) is read all the same by the source
  program; what arrives is indeterminate, \<open>None\<close>.
\<close>

fun uninitialized_move :: "size_t \<Rightarrow> ptr \<Rightarrow> nat \<Rightarrow> ptr \<Rightarrow> 'a heap \<Rightarrow> 'a heap" where
  "uninitialized_move sz first 0 dest h = h"
| "uninitialized_move sz first (Suc n) dest h =
     uninitialized_move sz (first + sz) n (dest + sz)
       (h\<lparr>cells := (cells h)(dest := cells h first)\<rparr>)"

section \<open>CustomAllocator\<close>

record CustomAllocator =
  a_data :: ptr
  a_capacity :: size_t
  a_used :: size_t

text \<open>
  \<^verbatim>\<open>explicit CustomAllocator(size_t capacity = 10)\<close>, with its request of
  \<^verbatim>\<open>capacity_ * sizeof(T)\<close> bytes, a product in \<^verbatim>\<open>size_t\<close>.
\<close>

definition default_capacity :: size_t where
  "default_capacity = 10"

definition CustomAllocator_new ::
  "size_t \<Rightarrow> size_t \<Rightarrow> 'a heap \<Rightarrow> (CustomAllocator, 'a heap) outcome" where
  "CustomAllocator_new sz cap h =
     (case operator_new (cap * sz) h of
        Raise e h' \<Rightarrow> Raise e h'
      | Return p h' \<Rightarrow> Return \<lparr>a_data = p, a_capacity = cap, a_used = 0\<rparr> h')"

definition CustomAllocator_clear ::
  "size_t \<Rightarrow> CustomAllocator \<Rightarrow> 'a heap \<Rightarrow> CustomAllocator \<times> 'a heap" where
  "CustomAllocator_clear sz a h =
     (if a_data a \<noteq> nullptr
      then (a\<lparr>a_used := 0\<rparr>, destroy_n sz (a_data a) (unat (a_used a)) h)
      else (a, h))"

definition CustomAllocator_resize ::
  "size_t \<Rightarrow> size_t \<Rightarrow> CustomAllocator \<Rightarrow> 'a heap
     \<Rightarrow> (unit, CustomAllocator \<times> 'a heap) outcome" where
  "CustomAllocator_resize sz new_capacity a h =
     (if new_capacity \<le> a_used a then Raise Bad_capacity (a, h)
      else case operator_new (new_capacity * sz) h of
        Raise e h' \<Rightarrow> Raise e (a, h')
      | Return new_data h1 \<Rightarrow>
          (let h2 = uninitialized_move sz (a_data a) (unat (a_used a)) new_data h1;
               (a1, h3) = CustomAllocator_clear sz a h2;
               h4 = (if a_data a1 \<noteq> nullptr then operator_delete (a_data a1) h3 else h3)
           in Return () (a1\<lparr>a_data := new_data, a_capacity := new_capacity\<rparr>, h4)))"

definition allocate ::
  "size_t \<Rightarrow> size_t \<Rightarrow> CustomAllocator \<Rightarrow> 'a heap
     \<Rightarrow> (ptr, CustomAllocator \<times> 'a heap) outcome" where
  "allocate sz n a h =
     (case (if a_capacity a < a_used a + n
            then CustomAllocator_resize sz (max (a_capacity a * 2) (a_used a + n)) a h
            else Return () (a, h)) of
        Raise e s \<Rightarrow> Raise e s
      | Return u (a1, h1) \<Rightarrow>
          Return (ptr_add sz (a_data a1) (a_used a1)) (a1\<lparr>a_used := a_used a1 + n\<rparr>, h1))"

definition deallocate ::
  "size_t \<Rightarrow> ptr \<Rightarrow> size_t \<Rightarrow> CustomAllocator \<Rightarrow> 'a heap
     \<Rightarrow> (unit, CustomAllocator \<times> 'a heap) outcome" where
  "deallocate sz p n a h =
     (if p = nullptr then Return () (a, h)
      else if p < a_data a \<or> ptr_add sz (a_data a) (a_capacity a) \<le> p
           then Raise Not_owned (a, h)
      else Return () (a, h))"

definition construct :: "ptr \<Rightarrow> 'a \<Rightarrow> CustomAllocator \<Rightarrow> 'a heap \<Rightarrow> CustomAllocator \<times> 'a heap" where
  "construct p v a h = (a, construct_at p v h)"

definition destroy :: "ptr \<Rightarrow> CustomAllocator \<Rightarrow> 'a heap \<Rightarrow> CustomAllocator \<times> 'a heap" where
  "destroy p a h = (a, destroy_at p h)"

text \<open>\<^verbatim>\<open>operator==\<close> and \<^verbatim>\<open>operator!=\<close> look at neither allocator.\<close>

definition operator_eq :: "CustomAllocator \<Rightarrow> CustomAllocator \<Rightarrow> bool" where
  "operator_eq a b = True"

definition operator_ne :: "CustomAllocator \<Rightarrow> CustomAllocator \<Rightarrow> bool" where
  "operator_ne a b = False"

definition capacity :: "CustomAllocator \<Rightarrow> size_t" where
  "capacity a = a_capacity a"

section \<open>CustomContainer over a CustomAllocator\<close>

record CustomContainer =
  c_alloc :: CustomAllocator
  c_data :: ptr
  c_size :: size_t
  c_capacity :: size_t

text \<open>
  \<^verbatim>\<open>explicit CustomContainer(size_t initial_capacity = 10)\<close>. The members are initialised
  in the order of their declaration: \<^verbatim>\<open>alloc_\<close> by the allocator's default constructor,
  then \<^verbatim>\<open>data_\<close> from \<^verbatim>\<open>alloc_.allocate(initial_capacity)\<close>, then the two counters.
\<close>

definition CustomContainer_new ::
  "size_t \<Rightarrow> size_t \<Rightarrow> 'a heap \<Rightarrow> (CustomContainer, 'a heap) outcome" where
  "CustomContainer_new sz initial_capacity h =
     (case CustomAllocator_new sz default_capacity h of
        Raise e h' \<Rightarrow> Raise e h'
      | Return a h1 \<Rightarrow>
          (case allocate sz initial_capacity a h1 of
             Raise e (a', h') \<Rightarrow> Raise e h'
           | Return p (a2, h2) \<Rightarrow>
               Return \<lparr>c_alloc = a2, c_data = p, c_size = 0, c_capacity = initial_capacity\<rparr> h2))"

text \<open>
  \<^verbatim>\<open>for (size_t i = 0; i < size_; ++i) alloc_.destroy(data_ + i); size_ = 0;\<close>
  \<^verbatim>\<open>destroy\<close> touches no field of the allocator, so the loop is \<open>destroy_n\<close>.
\<close>

definition CustomContainer_clear ::
  "size_t \<Rightarrow> CustomContainer \<Rightarrow> 'a heap \<Rightarrow> CustomContainer \<times> 'a heap" where
  "CustomContainer_clear sz c h =
     (c\<lparr>c_size := 0\<rparr>, destroy_n sz (c_data c) (unat (c_size c)) h)"

definition CustomContainer_resize ::
  "size_t \<Rightarrow> size_t \<Rightarrow> CustomContainer \<Rightarrow> 'a heap
     \<Rightarrow> (unit, CustomContainer \<times> 'a heap) outcome" where
  "CustomContainer_resize sz new_capacity c h =
     (case allocate sz new_capacity (c_alloc c) h of
        Raise e (a', h') \<Rightarrow> Raise e (c\<lparr>c_alloc := a'\<rparr>, h')
      | Return new_data (a1, h1) \<Rightarrow>
          (let h2 = uninitialized_move sz (c_data c) (unat (c_size c)) new_data h1;
               (c2, h3) = CustomContainer_clear sz (c\<lparr>c_alloc := a1\<rparr>) h2
           in case deallocate sz (c_data c2) (c_capacity c2) (c_alloc c2) h3 of
                Raise e (a', h') \<Rightarrow> Raise e (c2\<lparr>c_alloc := a'\<rparr>, h')
              | Return u (a3, h4) \<Rightarrow>
                  Return () (c2\<lparr>c_alloc := a3, c_data := new_data, c_capacity := new_capacity\<rparr>, h4)))"

definition push_back ::
  "size_t \<Rightarrow> 'a \<Rightarrow> CustomContainer \<Rightarrow> 'a heap
     \<Rightarrow> (unit, CustomContainer \<times> 'a heap) outcome" where
  "push_back sz v c h =
     (case (if c_size c = c_capacity c
            then CustomContainer_resize sz (c_capacity c * 2) c h
            else Return () (c, h)) of
        Raise e s \<Rightarrow> Raise e s
      | Return u (c1, h1) \<Rightarrow>
          (let (a2, h2) = construct (ptr_add sz (c_data c1) (c_size c1)) v (c_alloc c1) h1
           in Return () (c1\<lparr>c_alloc := a2, c_size := c_size c1 + 1\<rparr>, h2)))"

definition CustomContainer_begin :: "CustomContainer \<Rightarrow> ptr" where
  "CustomContainer_begin c = c_data c"

definition CustomContainer_end :: "size_t \<Rightarrow> CustomContainer \<Rightarrow> ptr" where
  "CustomContainer_end sz c = ptr_add sz (c_data c) (c_size c)"

definition CustomContainer_size :: "CustomContainer \<Rightarrow> size_t" where
  "CustomContainer_size c = c_size c"

definition CustomContainer_empty :: "CustomContainer \<Rightarrow> bool" where
  "CustomContainer_empty c = (c_size c = 0)"

text \<open>
  \<^verbatim>\<open>for (const auto& value : container)\<close>, that is
  \<^verbatim>\<open>for (it = begin(); it != end(); ++it)\<close>: what stands at the addresses the iterator
  visits; \<open>Some v\<close> is a live object of value \<open>v\<close>. After \<^verbatim>\<open>size_\<close> steps the iterator
  is \<^verbatim>\<open>end()\<close>, so the loop makes at most \<^verbatim>\<open>size_\<close> steps, the bound of the recursion.
\<close>

fun range_for :: "size_t \<Rightarrow> nat \<Rightarrow> ptr \<Rightarrow> ptr \<Rightarrow> 'a heap \<Rightarrow> 'a option list" where
  "range_for sz 0 it e h = []"
| "range_for sz (Suc k) it e h =
     (if it = e then [] else cells h it # range_for sz k (it + sz) e h)"

definition iterate :: "size_t \<Rightarrow> CustomContainer \<Rightarrow> 'a heap \<Rightarrow> 'a option list" where
  "iterate sz c h =
     range_for sz (unat (c_size c)) (CustomContainer_begin c) (CustomContainer_end sz c) h"

text \<open>A run of \<^verbatim>\<open>push_back\<close> calls, stopped by the first exception.\<close>

fun push_back_all ::
  "size_t \<Rightarrow> 'a list \<Rightarrow> CustomContainer \<Rightarrow> 'a heap
     \<Rightarrow> (unit, CustomContainer \<times> 'a heap) outcome" where
  "push_back_all sz [] c h = Return () (c, h)"
| "push_back_all sz (v # vs) c h =
     (case push_back sz v c h of
        Raise e s \<Rightarrow> Raise e s
      | Return u (c', h') \<Rightarrow> push_back_all sz vs c' h')"

section \<open>What the claims speak about\<close>

text \<open>The invariant of the cursor: \<^verbatim>\<open>0 <= used <= capacity\<close>.\<close>

definition cursor_inv :: "CustomAllocator \<Rightarrow> bool" where
  "cursor_inv a = (0 \<le> a_used a \<and> a_used a \<le> a_capacity a)"

section \<open>The run of main\<close>

text \<open>
  \<^verbatim>\<open>CustomContainer<int, CustomAllocator<int>> customAllocContainer(10);\<close> followed by
  \<^verbatim>\<open>for (int i = 0; i < 10; ++i) customAllocContainer.push_back(i);\<close>
  with \<^verbatim>\<open>sizeof(int)\<close> = 4. The container and the heap right after the constructor, on
  a heap whose memory ends at address 100000, and after the loop.
\<close>

definition ten_ints :: "int list" where
  "ten_ints = [0, 1, 2, 3, 4, 5, 6, 7, 8, 9]"

definition customAllocContainer :: CustomContainer where
  "customAllocContainer =
     \<lparr>c_alloc = \<lparr>a_data = 16, a_capacity = 10, a_used = 10\<rparr>,
      c_data = 16, c_size = 0, c_capacity = 10\<rparr>"

definition heap_after_new :: "int heap" where
  "heap_after_new = \<lparr>cells = Map.empty, blocks = [(16, 40)], brk = 72, limit = 100000\<rparr>"

definition customAllocContainer_full :: CustomContainer where
  "customAllocContainer_full =
     \<lparr>c_alloc = \<lparr>a_data = 16, a_capacity = 10, a_used = 10\<rparr>,
      c_data = 16, c_size = 10, c_capacity = 10\<rparr>"

definition heap_full :: "int heap" where
  "heap_full =
     \<lparr>cells = [16 \<mapsto> 0, 20 \<mapsto> 1, 24 \<mapsto> 2, 28 \<mapsto> 3, 32 \<mapsto> 4, 36 \<mapsto> 5, 40 \<mapsto> 6, 44 \<mapsto> 7,
               48 \<mapsto> 8, 52 \<mapsto> 9],
      blocks = [(16, 40)], brk = 72, limit = 100000\<rparr>"

section \<open>Facts about the operations\<close>

lemmas model_defs =
  allocate_def CustomAllocator_resize_def CustomAllocator_clear_def operator_new_def
  operator_delete_def nullptr_def ptr_add_def deallocate_def construct_def construct_at_def
  destroy_def CustomContainer_resize_def CustomContainer_clear_def push_back_def

text \<open>
  Under the invariant, a sum \<^verbatim>\<open>used_ + n\<close> that exceeds the capacity has not wrapped
  around; and a sum that does not wrap is compared as the exact one.
\<close>

lemma growth_sum_exact:
  fixes u c n :: size_t
  assumes "u \<le> c" and "c < u + n"
  shows "unat (u + n) = unat u + unat n"
proof -
  from assms have "u \<le> u + n" by simp
  then show ?thesis by (simp add: unat_plus_simple)
qed

lemma request_le_sum:
  fixes u c n :: size_t
  assumes "u \<le> c" and "c < u + n"
  shows "n \<le> u + n"
  using growth_sum_exact [OF assms] by (simp add: word_le_nat_alt)

lemma exact_sum_test:
  fixes u c n :: size_t
  assumes "unat u + unat n < 2 ^ 64"
  shows "(c < u + n) = (unat c < unat u + unat n)"
proof -
  from assms have "unat (u + n) = unat u + unat n"
    by (simp add: unat_add_lem [THEN iffD1])
  then show ?thesis by (simp add: word_less_nat_alt)
qed

text \<open>What the allocator's \<^verbatim>\<open>resize\<close> leaves behind when it returns, and when it throws.\<close>

lemma resize_Return:
  "CustomAllocator_resize sz nc a h = Return u (a', h') \<Longrightarrow>
   a_capacity a' = nc \<and> a_data a' = brk h
   \<and> a_used a' = (if a_data a \<noteq> nullptr then 0 else a_used a) \<and> a_used a < nc"
  by (auto simp add: CustomAllocator_resize_def CustomAllocator_clear_def operator_new_def Let_def
      split: outcome.splits prod.splits if_splits)

lemma resize_Raise:
  "CustomAllocator_resize sz nc a h = Raise e s \<Longrightarrow> s = (a, h) \<and> e \<noteq> Not_owned"
  by (auto simp add: CustomAllocator_resize_def CustomAllocator_clear_def operator_new_def Let_def
      split: outcome.splits prod.splits if_splits)

lemma resize_inv:
  "cursor_inv a \<Longrightarrow> cursor_inv (fst (state_of (CustomAllocator_resize sz nc a h)))"
  by (auto simp add: CustomAllocator_resize_def CustomAllocator_clear_def cursor_inv_def Let_def
      split: outcome.splits prod.splits if_splits)

text \<open>\<^verbatim>\<open>allocate\<close> throws only out of a growth step, and then nothing has changed.\<close>

lemma allocate_Raise:
  "allocate sz n a h = Raise e s \<Longrightarrow>
   s = (a, h) \<and> e \<noteq> Not_owned \<and> a_capacity a < a_used a + n"
  by (auto simp add: allocate_def split: outcome.splits prod.splits if_splits dest: resize_Raise)

lemma deallocate_Raise:
  "deallocate sz p n a h = Raise e s \<Longrightarrow> s = (a, h) \<and> e = Not_owned"
  by (auto simp add: deallocate_def split: if_splits)

lemma allocate_inv:
  assumes "cursor_inv a"
  shows "cursor_inv (fst (state_of (allocate sz n a h)))"
proof (cases "allocate sz n a h")
  case (Raise e s)
  with allocate_Raise [OF Raise] assms show ?thesis by simp
next
  case (Return p s)
  obtain a' h' where s: "s = (a', h')" by (cases s)
  show ?thesis
  proof (cases "a_capacity a < a_used a + n")
    case False
    with Return s have "a' = a\<lparr>a_used := a_used a + n\<rparr>"
      by (auto simp add: allocate_def)
    with False Return s show ?thesis by (simp add: cursor_inv_def)
  next
    case True
    let ?nc = "max (a_capacity a * 2) (a_used a + n)"
    from True Return s obtain a1 h1 where
      r: "CustomAllocator_resize sz ?nc a h = Return () (a1, h1)" and
      a': "a' = a1\<lparr>a_used := a_used a1 + n\<rparr>"
      by (auto simp add: allocate_def split: outcome.splits)
    from assms True have "n \<le> a_used a + n"
      by (intro request_le_sum [of "a_used a" "a_capacity a"]) (simp_all add: cursor_inv_def)
    with resize_Return [OF r] a' have "a_used a' \<le> a_capacity a'"
      by (auto simp add: max_def)
    with Return s show ?thesis by (simp add: cursor_inv_def)
  qed
qed

text \<open>A destructor loop leaves no object at any address it has visited.\<close>

lemma destroy_n_keeps_None:
  "cells h q = None \<Longrightarrow> cells (destroy_n sz p n h) q = None"
  by (induction n arbitrary: p h) (simp_all add: destroy_at_def)

lemma destroy_n_destroys:
  "i < n \<Longrightarrow> cells (destroy_n sz p n h) (p + of_nat i * sz) = None"
proof (induction n arbitrary: p i h)
  case 0
  then show ?case by simp
next
  case (Suc n)
  show ?case
  proof (cases i)
    case 0
    then show ?thesis by (simp add: destroy_n_keeps_None destroy_at_def)
  next
    case (Suc j)
    with Suc.prems have "j < n" by simp
    from Suc.IH [OF this, of "p + sz" "destroy_at p h"] Suc show ?thesis
      by (simp add: algebra_simps)
  qed
qed

text \<open>
  The container's \<^verbatim>\<open>resize\<close> throws either out of \<^verbatim>\<open>allocate\<close>, before it has touched
  anything, or out of \<^verbatim>\<open>deallocate\<close>, after \<^verbatim>\<open>clear()\<close> has destroyed the elements.
\<close>

lemma container_resize_Raise:
  assumes "CustomContainer_resize sz nc c h = Raise e (c', h')"
  shows "c_capacity c' = c_capacity c \<and> c_data c' = c_data c
       \<and> ((e \<noteq> Not_owned \<and> c' = c \<and> h' = h)
          \<or> (e = Not_owned \<and> c_size c' = 0
              \<and> (\<exists>h2. h' = destroy_n sz (c_data c) (unat (c_size c)) h2)))"
proof (cases "allocate sz nc (c_alloc c) h")
  case (Raise e1 s1)
  from allocate_Raise [OF Raise] Raise assms show ?thesis
    by (auto simp add: CustomContainer_resize_def)
next
  case (Return p s1)
  obtain a1 h1 where s1: "s1 = (a1, h1)" by (cases s1)
  from Return s1 assms show ?thesis
    by (auto simp add: CustomContainer_resize_def CustomContainer_clear_def Let_def
        split: outcome.splits prod.splits dest!: deallocate_Raise)
qed

lemma push_back_Not_owned_destroys:
  assumes "raised (push_back sz v c h) = Some Not_owned" and "i < unat (c_size c)"
  shows "cells (snd (state_of (push_back sz v c h))) (ptr_add sz (c_data c) (of_nat i)) = None"
proof -
  from assms(1) obtain c' h' where
    r: "CustomContainer_resize sz (c_capacity c * 2) c h = Raise Not_owned (c', h')" and
    p: "push_back sz v c h = Raise Not_owned (c', h')"
    by (cases "CustomContainer_resize sz (c_capacity c * 2) c h")
       (auto simp add: push_back_def Let_def split: if_splits prod.splits)
  from container_resize_Raise [OF r] obtain h2 where
    "h' = destroy_n sz (c_data c) (unat (c_size c)) h2" by auto
  with p assms(2) show ?thesis
    by (simp add: ptr_add_def destroy_n_destroys)
qed

text \<open>The loops at a numeral, and a run of appends split in two.\<close>

lemma destroy_n_numeral:
  "destroy_n sz p (numeral k) h = destroy_n sz (p + sz) (pred_numeral k) (destroy_at p h)"
  by (simp add: numeral_eq_Suc)

lemma uninitialized_move_numeral:
  "uninitialized_move sz first (numeral k) dest h =
     uninitialized_move sz (first + sz) (pred_numeral k) (dest + sz)
       (h\<lparr>cells := (cells h)(dest := cells h first)\<rparr>)"
  by (simp add: numeral_eq_Suc)

lemma range_for_numeral:
  "range_for sz (numeral k) it e h =
     (if it = e then [] else cells h it # range_for sz (pred_numeral k) (it + sz) e h)"
  by (simp add: numeral_eq_Suc)

lemmas loop_numeral =
  destroy_n_numeral uninitialized_move_numeral range_for_numeral destroy_at_def

lemmas iterate_defs = iterate_def CustomContainer_begin_def CustomContainer_end_def

text \<open>
  The run of main: the constructor, then ten appends without growth; the container holds
  0, 1, ..., 9 in order, at size 10 and capacity 10, in the buffer it started with. An
  eleventh append throws.
\<close>

lemma customAllocContainer_new:
  "CustomContainer_new 4 10 (empty_heap 100000) = Return customAllocContainer heap_after_new"
  by (simp add: CustomContainer_new_def CustomAllocator_new_def default_capacity_def
      empty_heap_def customAllocContainer_def heap_after_new_def model_defs)

lemma customAllocContainer_filled:
  "push_back_all 4 ten_ints customAllocContainer heap_after_new
     = Return () (customAllocContainer_full, heap_full)"
  by (simp add: ten_ints_def customAllocContainer_def heap_after_new_def
      customAllocContainer_full_def heap_full_def model_defs)

lemma iterate_full: "iterate 4 customAllocContainer_full heap_full = map Some ten_ints"
  by (simp add: iterate_defs ptr_add_def loop_numeral
      customAllocContainer_full_def heap_full_def ten_ints_def)

lemma eleventh_push_back:
  "raised (push_back 4 10 customAllocContainer_full heap_full) = Some Not_owned
   \<and> fst (state_of (push_back 4 10 customAllocContainer_full heap_full)) =
       \<lparr>c_alloc = \<lparr>a_data = 72, a_capacity = 30, a_used = 20\<rparr>,
        c_data = 16, c_size = 0, c_capacity = 10\<rparr>"
  by (simp add: customAllocContainer_full_def heap_full_def model_defs Let_def)

lemma eleventh_cells:
  "map (cells (snd (state_of (push_back 4 10 customAllocContainer_full heap_full))))
     [16, 20, 24, 28, 32, 36, 40, 44, 48, 52]
     = [None, None, None, None, None, None, None, None, None, None]"
proof -
  have r: "raised (push_back 4 10 customAllocContainer_full heap_full) = Some Not_owned"
    using eleventh_push_back by simp
  have s: "unat (c_size customAllocContainer_full) = 10"
    by (simp add: customAllocContainer_full_def)
  have d: "c_data customAllocContainer_full = 16"
    by (simp add: customAllocContainer_full_def)
  note at = push_back_Not_owned_destroys [OF r, unfolded s d ptr_add_def]
  from at [of 0] at [of 1] at [of 2] at [of 3] at [of 4] at [of 5] at [of 6] at [of 7]
    at [of 8] at [of 9]
  show ?thesis by simp
qed

lemma push_back_all_append:
  "push_back_all sz (xs @ ys) c h =
     (case push_back_all sz xs c h of
        Raise e s \<Rightarrow> Raise e s
      | Return u (c', h') \<Rightarrow> push_back_all sz ys c' h')"
  by (induction xs arbitrary: c h) (auto split: outcome.splits)

lemma push_back_all_single_Raise:
  "raised (push_back sz v c h) = Some e \<Longrightarrow> push_back_all sz [v] c h = push_back sz v c h"
  by (cases "push_back sz v c h") auto

text \<open>
  Where the byte count \<^verbatim>\<open>capacity_ * sizeof(T)\<close> wraps around, so does the bound
  \<^verbatim>\<open>data_ + capacity_\<close>: at capacity \<open>2 ^ 62\<close> and \<^verbatim>\<open>sizeof(T)\<close> = 4 the range is empty
  and \<^verbatim>\<open>deallocate(data_, 1)\<close> throws.
\<close>

lemma deallocate_wrapped_bound: "raised (deallocate 4 16 1 \<lparr>a_data = 16, a_capacity = 2 ^ 62, a_used = 0\<rparr> (empty_heap 1000 :: int heap)) = Some Not_owned"
  by (simp add: deallocate_def nullptr_def ptr_add_def)

section \<open>deallocate\<close>

text \<open>
  C10. For every allocator state and every \<open>n\<close>, \<^verbatim>\<open>deallocate(nullptr, n)\<close> returns
  normally, raising nothing, and leaves the allocator (and the heap) as they were.
\<close>

theorem deallocate_nullptr_returns:
  "deallocate sz nullptr n a h = Return () (a, h)"
  by (simp add: deallocate_def)

text \<open>
  C7. For every allocator state, every pointer \<open>p\<close> and every \<open>n\<close>, \<^verbatim>\<open>deallocate(p, n)\<close>
  leaves the allocator and the heap entirely unchanged, whether it returns or throws:
  \<^verbatim>\<open>used_\<close> is not decremented, \<^verbatim>\<open>capacity_\<close> and \<^verbatim>\<open>data_\<close> are untouched, nothing is
  given back. For \<open>p\<close> inside \<^verbatim>\<open>[data_, data_ + capacity_)\<close>, the bound being the
  pointer the code computes, it returns.
\<close>

theorem deallocate_in_range_unchanged:
  "state_of (deallocate sz p n a h) = (a, h)
   \<and> (a_data a \<le> p \<and> p < ptr_add sz (a_data a) (a_capacity a)
        \<longrightarrow> deallocate sz p n a h = Return () (a, h))"
  by (auto simp add: deallocate_def)

theorem deallocate_in_range_unchanged_witness:
  "a_data \<lparr>a_data = 16, a_capacity = 10, a_used = 3\<rparr> \<le> 20
   \<and> 20 < ptr_add 4 (a_data \<lparr>a_data = 16, a_capacity = 10, a_used = 3\<rparr>)
              (a_capacity \<lparr>a_data = 16, a_capacity = 10, a_used = 3\<rparr>)
   \<and> deallocate 4 20 1 \<lparr>a_data = 16, a_capacity = 10, a_used = 3\<rparr> (empty_heap 1000 :: int heap)
       = Return () (\<lparr>a_data = 16, a_capacity = 10, a_used = 3\<rparr>, empty_heap 1000)"
  using deallocate_in_range_unchanged
    [of 4 20 1 "\<lparr>a_data = 16, a_capacity = 10, a_used = 3\<rparr>" "empty_heap 1000 :: int heap"]
  by (simp add: ptr_add_def)

text \<open>
  C4, as the claim states it, fails at the null pointer: \<open>nullptr\<close> lies below the
  buffer of an allocator whose buffer starts at address 16, hence outside
  \<^verbatim>\<open>[data_, data_ + capacity_)\<close>, and \<^verbatim>\<open>deallocate(nullptr, 1)\<close> raises nothing.
\<close>

theorem deallocate_outside_nullptr_counterexample:
  "nullptr < a_data \<lparr>a_data = 16, a_capacity = 10, a_used = 0\<rparr>
   \<and> raised (deallocate 4 nullptr 1 \<lparr>a_data = 16, a_capacity = 10, a_used = 0\<rparr>
        (empty_heap 1000 :: int heap)) = None"
  by (simp add: deallocate_def nullptr_def)

text \<open>
  C4, amended. For every allocator state, \<^verbatim>\<open>deallocate(p, n)\<close> raises the ownership
  error exactly when \<open>p\<close> is not null and lies outside \<^verbatim>\<open>[data_, data_ + capacity_)\<close>;
  it returns, with the state unchanged, exactly when \<open>p\<close> is null or inside that range.
  The upper bound is the pointer \<^verbatim>\<open>data_ + capacity_\<close> as the code computes it:
  \<^verbatim>\<open>capacity_ * sizeof(T)\<close> bytes past \<^verbatim>\<open>data_\<close>, modulo \<open>2 ^ 64\<close>.
\<close>

theorem deallocate_raises_iff:
  "(deallocate sz p n a h = Raise Not_owned (a, h)) =
     (p \<noteq> nullptr \<and> (p < a_data a \<or> ptr_add sz (a_data a) (a_capacity a) \<le> p))
   \<and> (deallocate sz p n a h = Return () (a, h)) =
     (p = nullptr \<or> (a_data a \<le> p \<and> p < ptr_add sz (a_data a) (a_capacity a)))"
  by (auto simp add: deallocate_def)

section \<open>Comparison of allocators\<close>

text \<open>
  C9. For every two allocators, whatever their buffers, capacities and cursors,
  \<^verbatim>\<open>operator==\<close> is true and \<^verbatim>\<open>operator!=\<close> is false.
\<close>

theorem allocators_always_equal:
  "operator_eq a b \<and> \<not> operator_ne a b"
  by (simp add: operator_eq_def operator_ne_def)

section \<open>The cursor and the growth of the allocator\<close>

text \<open>
  C8. The invariant \<^verbatim>\<open>0 <= used <= capacity\<close> holds for an allocator that the
  constructor has just returned, and every operation of the allocator started in a state
  that satisfies it leaves a state that satisfies it, whether it returns or throws:
  \<^verbatim>\<open>allocate\<close>, \<^verbatim>\<open>deallocate\<close>, \<^verbatim>\<open>construct\<close>, \<^verbatim>\<open>destroy\<close>, the internal
  \<^verbatim>\<open>resize\<close> and \<^verbatim>\<open>clear\<close>.
\<close>

theorem cursor_inv_preserved:
  "(CustomAllocator_new sz cap h0 = Return a0 h0' \<longrightarrow> cursor_inv a0)
   \<and> (cursor_inv a \<longrightarrow>
        cursor_inv (fst (state_of (allocate sz n a h)))
      \<and> cursor_inv (fst (state_of (deallocate sz p n a h)))
      \<and> cursor_inv (fst (construct p v a h))
      \<and> cursor_inv (fst (destroy p a h))
      \<and> cursor_inv (fst (state_of (CustomAllocator_resize sz nc a h)))
      \<and> cursor_inv (fst (CustomAllocator_clear sz a h)))"
proof (intro conjI impI)
  assume "CustomAllocator_new sz cap h0 = Return a0 h0'"
  then show "cursor_inv a0"
    by (auto simp add: CustomAllocator_new_def cursor_inv_def split: outcome.splits)
next
  assume "cursor_inv a"
  then show "cursor_inv (fst (state_of (allocate sz n a h)))" by (rule allocate_inv)
next
  assume "cursor_inv a"
  then show "cursor_inv (fst (state_of (deallocate sz p n a h)))"
    by (simp add: deallocate_def)
next
  assume "cursor_inv a"
  then show "cursor_inv (fst (construct p v a h))" by (simp add: construct_def)
next
  assume "cursor_inv a"
  then show "cursor_inv (fst (destroy p a h))" by (simp add: destroy_def)
next
  assume "cursor_inv a"
  then show "cursor_inv (fst (state_of (CustomAllocator_resize sz nc a h)))" by (rule resize_inv)
next
  assume "cursor_inv a"
  then show "cursor_inv (fst (CustomAllocator_clear sz a h))"
    by (simp add: CustomAllocator_clear_def cursor_inv_def)
qed

theorem cursor_inv_preserved_witness:
  "CustomAllocator_new 4 10 (empty_heap 100000 :: int heap)
     = Return \<lparr>a_data = 16, a_capacity = 10, a_used = 0\<rparr>
         \<lparr>cells = Map.empty, blocks = [(16, 40)], brk = 72, limit = 100000\<rparr>
   \<and> cursor_inv \<lparr>a_data = 16, a_capacity = 10, a_used = 0\<rparr>
   \<and> cursor_inv \<lparr>a_data = 16, a_capacity = 10, a_used = 10\<rparr>
   \<and> cursor_inv (fst (state_of (allocate 4 20 \<lparr>a_data = 16, a_capacity = 10, a_used = 10\<rparr>
        heap_full)))
   \<and> cursor_inv (fst (state_of (CustomAllocator_resize 4 30
        \<lparr>a_data = 16, a_capacity = 10, a_used = 10\<rparr> heap_full)))"
proof -
  have new: "CustomAllocator_new 4 10 (empty_heap 100000 :: int heap)
     = Return \<lparr>a_data = 16, a_capacity = 10, a_used = 0\<rparr>
         \<lparr>cells = Map.empty, blocks = [(16, 40)], brk = 72, limit = 100000\<rparr>"
    by (simp add: CustomAllocator_new_def operator_new_def empty_heap_def)
  have inv: "cursor_inv \<lparr>a_data = 16, a_capacity = 10, a_used = 10\<rparr>"
    by (simp add: cursor_inv_def)
  from new inv
    cursor_inv_preserved [of 4 10 "empty_heap 100000 :: int heap"
      "\<lparr>a_data = 16, a_capacity = 10, a_used = 0\<rparr>"
      "\<lparr>cells = Map.empty, blocks = [(16, 40)], brk = 72, limit = 100000\<rparr>"
      "\<lparr>a_data = 16, a_capacity = 10, a_used = 10\<rparr>" 20 heap_full 16 0 30]
  show ?thesis by blast
qed

text \<open>
  C5, as the claim states it for every request size, fails where \<^verbatim>\<open>used_ + n\<close> wraps
  around: at capacity 10 with 10 slots used, a request of \<open>2 ^ 64 - 5\<close> slots exceeds the
  capacity, yet the allocator does not grow; it returns \<^verbatim>\<open>data_ + 10\<close>, keeps capacity
  10 and leaves \<^verbatim>\<open>used_\<close> at 5.
\<close>

theorem allocate_growth_counterexample:
  "unat (capacity \<lparr>a_data = 16, a_capacity = 10, a_used = 10\<rparr>)
     < unat (a_used \<lparr>a_data = 16, a_capacity = 10, a_used = 10\<rparr>)
       + unat (18446744073709551611 :: size_t)
   \<and> allocate 4 18446744073709551611 \<lparr>a_data = 16, a_capacity = 10, a_used = 10\<rparr> heap_full
       = Return 56 (\<lparr>a_data = 16, a_capacity = 10, a_used = 5\<rparr>, heap_full)"
  by (simp add: allocate_def ptr_add_def capacity_def)

text \<open>
  C5, amended. \<^verbatim>\<open>allocate(n)\<close> runs the growth step exactly when the \<^verbatim>\<open>size_t\<close> sum
  \<^verbatim>\<open>used_ + n\<close>, taken modulo \<open>2 ^ 64\<close>, exceeds \<^verbatim>\<open>capacity_\<close>. When the test fails,
  the call returns \<^verbatim>\<open>data_ + used_\<close> with buffer, capacity and heap untouched. When it
  holds and the call returns, the capacity is \<^verbatim>\<open>max(capacity_ * 2, used_ + n)\<close> of the
  values before the call, in the same arithmetic; it is greater than before, and the
  buffer is the block just obtained. Whenever the exact sum of \<^verbatim>\<open>used_\<close> and \<open>n\<close> is
  below \<open>2 ^ 64\<close>, the test is the exact one; and under the invariant of the cursor a sum
  that passes the test has not wrapped.
\<close>

theorem allocate_growth:
  "(\<not> a_capacity a < a_used a + n \<longrightarrow>
      allocate sz n a h
        = Return (ptr_add sz (a_data a) (a_used a)) (a\<lparr>a_used := a_used a + n\<rparr>, h))
   \<and> (a_capacity a < a_used a + n \<longrightarrow> raised (allocate sz n a h) = None \<longrightarrow>
        capacity (fst (state_of (allocate sz n a h))) = max (capacity a * 2) (a_used a + n)
      \<and> capacity a < capacity (fst (state_of (allocate sz n a h)))
      \<and> a_data (fst (state_of (allocate sz n a h))) = brk h)
   \<and> (unat (a_used a) + unat n < 2 ^ 64 \<longrightarrow>
        (a_capacity a < a_used a + n) = (unat (a_capacity a) < unat (a_used a) + unat n))
   \<and> (cursor_inv a \<longrightarrow> a_capacity a < a_used a + n \<longrightarrow>
        unat (a_used a + n) = unat (a_used a) + unat n)"
proof (intro conjI impI)
  assume "\<not> a_capacity a < a_used a + n"
  then show "allocate sz n a h
      = Return (ptr_add sz (a_data a) (a_used a)) (a\<lparr>a_used := a_used a + n\<rparr>, h)"
    by (simp add: allocate_def)
next
  assume g: "a_capacity a < a_used a + n" and r: "raised (allocate sz n a h) = None"
  let ?nc = "max (a_capacity a * 2) (a_used a + n)"
  from g r obtain a1 h1 where
    rs: "CustomAllocator_resize sz ?nc a h = Return () (a1, h1)" and
    al: "allocate sz n a h
         = Return (ptr_add sz (a_data a1) (a_used a1)) (a1\<lparr>a_used := a_used a1 + n\<rparr>, h1)"
    by (auto simp add: allocate_def split: outcome.splits)
  from resize_Return [OF rs] al
  show "capacity (fst (state_of (allocate sz n a h))) = max (capacity a * 2) (a_used a + n)"
    by (simp add: capacity_def)
  from g have "a_capacity a < ?nc" by (simp add: less_max_iff_disj)
  with resize_Return [OF rs] al show "capacity a < capacity (fst (state_of (allocate sz n a h)))"
    by (simp add: capacity_def)
  from resize_Return [OF rs] al show "a_data (fst (state_of (allocate sz n a h))) = brk h"
    by simp
next
  assume "unat (a_used a) + unat n < 2 ^ 64"
  then show "(a_capacity a < a_used a + n) = (unat (a_capacity a) < unat (a_used a) + unat n)"
    by (rule exact_sum_test)
next
  assume "cursor_inv a" and "a_capacity a < a_used a + n"
  then show "unat (a_used a + n) = unat (a_used a) + unat n"
    by (intro growth_sum_exact [of _ "a_capacity a"]) (simp_all add: cursor_inv_def)
qed

theorem allocate_growth_witness:
  "a_capacity \<lparr>a_data = 16, a_capacity = 10, a_used = 10\<rparr>
     < a_used \<lparr>a_data = 16, a_capacity = 10, a_used = 10\<rparr> + 1
   \<and> raised (allocate 4 1 \<lparr>a_data = 16, a_capacity = 10, a_used = 10\<rparr> heap_full) = None
   \<and> capacity (fst (state_of (allocate 4 1 \<lparr>a_data = 16, a_capacity = 10, a_used = 10\<rparr> heap_full))) = 20
   \<and> a_data (fst (state_of (allocate 4 1 \<lparr>a_data = 16, a_capacity = 10, a_used = 10\<rparr> heap_full))) = 72
   \<and> cursor_inv \<lparr>a_data = 16, a_capacity = 10, a_used = 10\<rparr>
   \<and> unat (a_used \<lparr>a_data = 16, a_capacity = 10, a_used = 10\<rparr> + 1)
       = unat (a_used \<lparr>a_data = 16, a_capacity = 10, a_used = 10\<rparr>) + unat (1 :: size_t)
   \<and> \<not> a_capacity \<lparr>a_data = 16, a_capacity = 10, a_used = 9\<rparr>
        < a_used \<lparr>a_data = 16, a_capacity = 10, a_used = 9\<rparr> + 1
   \<and> allocate 4 1 \<lparr>a_data = 16, a_capacity = 10, a_used = 9\<rparr> heap_full
       = Return 52 (\<lparr>a_data = 16, a_capacity = 10, a_used = 10\<rparr>, heap_full)"
proof -
  have g: "a_capacity \<lparr>a_data = 16, a_capacity = 10, a_used = 10\<rparr>
     < a_used \<lparr>a_data = 16, a_capacity = 10, a_used = 10\<rparr> + 1"
    by simp
  have r: "raised (allocate 4 1 \<lparr>a_data = 16, a_capacity = 10, a_used = 10\<rparr> heap_full) = None"
    by (simp add: heap_full_def model_defs Let_def)
  have i: "cursor_inv \<lparr>a_data = 16, a_capacity = 10, a_used = 10\<rparr>"
    by (simp add: cursor_inv_def)
  have n: "\<not> a_capacity \<lparr>a_data = 16, a_capacity = 10, a_used = 9\<rparr>
        < a_used \<lparr>a_data = 16, a_capacity = 10, a_used = 9\<rparr> + 1"
    by simp
  from g r allocate_growth [of "\<lparr>a_data = 16, a_capacity = 10, a_used = 10\<rparr>" 1 4 heap_full]
  have 1: "capacity (fst (state_of (allocate 4 1 \<lparr>a_data = 16, a_capacity = 10, a_used = 10\<rparr> heap_full))) = 20
     \<and> a_data (fst (state_of (allocate 4 1 \<lparr>a_data = 16, a_capacity = 10, a_used = 10\<rparr> heap_full))) = 72"
    by (simp add: capacity_def heap_full_def)
  from g i allocate_growth [of "\<lparr>a_data = 16, a_capacity = 10, a_used = 10\<rparr>" 1 4 heap_full]
  have 2: "unat (a_used \<lparr>a_data = 16, a_capacity = 10, a_used = 10\<rparr> + 1)
       = unat (a_used \<lparr>a_data = 16, a_capacity = 10, a_used = 10\<rparr>) + unat (1 :: size_t)"
    by blast
  from n allocate_growth [of "\<lparr>a_data = 16, a_capacity = 10, a_used = 9\<rparr>" 1 4 heap_full]
  have 3: "allocate 4 1 \<lparr>a_data = 16, a_capacity = 10, a_used = 9\<rparr> heap_full
       = Return 52 (\<lparr>a_data = 16, a_capacity = 10, a_used = 10\<rparr>, heap_full)"
    by (simp add: ptr_add_def)
  from g r i n 1 2 3 show ?thesis by blast
qed

text \<open>
  C1. The claim: after a successful \<^verbatim>\<open>allocate(n)\<close> the cursor has grown by exactly
  \<open>n\<close>, also across a growth step. The code, on the allocator of the full container
  (capacity 10, \<^verbatim>\<open>used_\<close> = 10) asked for 20 slots: the call returns, the capacity is 30,
  and \<^verbatim>\<open>used_\<close> is 20, not 30. \<^verbatim>\<open>resize\<close> calls \<^verbatim>\<open>clear()\<close>, which sets
  \<^verbatim>\<open>used_ = 0\<close> after the ten objects have been moved into the new buffer.
\<close>

theorem allocate_growth_resets_used:
  "a_used \<lparr>a_data = 16, a_capacity = 10, a_used = 10\<rparr> + 20 = 30
   \<and> raised (allocate 4 20 \<lparr>a_data = 16, a_capacity = 10, a_used = 10\<rparr> heap_full) = None
   \<and> fst (state_of (allocate 4 20 \<lparr>a_data = 16, a_capacity = 10, a_used = 10\<rparr> heap_full))
       = \<lparr>a_data = 72, a_capacity = 30, a_used = 20\<rparr>"
  by (simp add: heap_full_def model_defs Let_def)

section \<open>Appending to the container\<close>

text \<open>
  C2. The claim: eleven appends into a container of initial capacity 10 succeed, with one
  growth. The code: the constructor and the first ten appends return, leaving 0, ..., 9;
  the eleventh append throws the ownership error out of \<^verbatim>\<open>deallocate\<close>, and leaves
  the container at size 0 and capacity 10.
\<close>

theorem scenario_B_raises:
  "CustomContainer_new 4 10 (empty_heap 100000) = Return customAllocContainer heap_after_new
   \<and> push_back_all 4 ten_ints customAllocContainer heap_after_new
       = Return () (customAllocContainer_full, heap_full)
   \<and> raised (push_back_all 4 (ten_ints @ [10]) customAllocContainer heap_after_new)
       = Some Not_owned
   \<and> CustomContainer_size
        (fst (state_of (push_back_all 4 (ten_ints @ [10]) customAllocContainer heap_after_new)))
       = 0
   \<and> c_capacity
        (fst (state_of (push_back_all 4 (ten_ints @ [10]) customAllocContainer heap_after_new)))
       = 10"
proof -
  have "push_back_all 4 (ten_ints @ [10]) customAllocContainer heap_after_new
        = push_back_all 4 [10] customAllocContainer_full heap_full"
    by (simp add: push_back_all_append customAllocContainer_filled)
  also have "\<dots> = push_back 4 10 customAllocContainer_full heap_full"
    using eleventh_push_back by (intro push_back_all_single_Raise [of _ _ _ _ Not_owned]) simp
  finally have "push_back_all 4 (ten_ints @ [10]) customAllocContainer heap_after_new
        = push_back 4 10 customAllocContainer_full heap_full" .
  with eleventh_push_back customAllocContainer_new customAllocContainer_filled
  show ?thesis by (simp add: CustomContainer_size_def)
qed

text \<open>
  C6. The claim: after each append \<^verbatim>\<open>size()\<close> is the number of appends so far and the
  iteration yields the appended values in order. The code, on a container of initial
  capacity 1 to which 7 and then 8 are appended: both appends return, \<^verbatim>\<open>size()\<close> is 1
  and the iteration yields 8 alone. The container's \<^verbatim>\<open>resize\<close> calls \<^verbatim>\<open>clear()\<close>,
  which sets \<^verbatim>\<open>size_ = 0\<close> after the elements have been moved.
\<close>

theorem growth_forgets_elements:
  "CustomContainer_new 4 1 (empty_heap 100000 :: int heap)
     = Return \<lparr>c_alloc = \<lparr>a_data = 16, a_capacity = 10, a_used = 1\<rparr>,
               c_data = 16, c_size = 0, c_capacity = 1\<rparr>
         \<lparr>cells = Map.empty, blocks = [(16, 40)], brk = 72, limit = 100000\<rparr>
   \<and> raised (push_back_all 4 [7, 8]
        \<lparr>c_alloc = \<lparr>a_data = 16, a_capacity = 10, a_used = 1\<rparr>,
         c_data = 16, c_size = 0, c_capacity = 1\<rparr>
        \<lparr>cells = Map.empty, blocks = [(16, 40)], brk = 72, limit = 100000\<rparr>
          :: (unit, CustomContainer \<times> int heap) outcome) = None
   \<and> CustomContainer_size (fst (state_of (push_back_all 4 [7, 8]
        \<lparr>c_alloc = \<lparr>a_data = 16, a_capacity = 10, a_used = 1\<rparr>,
         c_data = 16, c_size = 0, c_capacity = 1\<rparr>
        \<lparr>cells = Map.empty, blocks = [(16, 40)], brk = 72, limit = 100000\<rparr>
          :: (unit, CustomContainer \<times> int heap) outcome))) = 1
   \<and> (let r = push_back_all 4 [7, 8]
        \<lparr>c_alloc = \<lparr>a_data = 16, a_capacity = 10, a_used = 1\<rparr>,
         c_data = 16, c_size = 0, c_capacity = 1\<rparr>
        \<lparr>cells = Map.empty, blocks = [(16, 40)], brk = 72, limit = 100000\<rparr>
          :: (unit, CustomContainer \<times> int heap) outcome
      in iterate 4 (fst (state_of r)) (snd (state_of r))) = [Some 8]"
  by (simp add: CustomContainer_new_def CustomAllocator_new_def default_capacity_def
      empty_heap_def model_defs loop_numeral Let_def CustomContainer_size_def iterate_defs)

text \<open>
  C3. The claim: when the growth step of an append fails, the container is as it was
  before the append, and no old element has been destroyed. The code, on the full
  container of main, which holds 0, ..., 9 at size 10: the growth step of the eleventh
  append throws the ownership error, and the container is left at size 0, its iteration
  empty, with no object left at any of the ten addresses that held its elements.
\<close>

theorem growth_failure_loses_elements:
  "CustomContainer_size customAllocContainer_full = 10
   \<and> iterate 4 customAllocContainer_full heap_full = map Some ten_ints
   \<and> map (cells heap_full) [16, 20, 24, 28, 32, 36, 40, 44, 48, 52] = map Some ten_ints
   \<and> raised (push_back 4 10 customAllocContainer_full heap_full) = Some Not_owned
   \<and> CustomContainer_size (fst (state_of (push_back 4 10 customAllocContainer_full heap_full))) = 0
   \<and> iterate 4 (fst (state_of (push_back 4 10 customAllocContainer_full heap_full)))
        (snd (state_of (push_back 4 10 customAllocContainer_full heap_full))) = []
   \<and> map (cells (snd (state_of (push_back 4 10 customAllocContainer_full heap_full))))
        [16, 20, 24, 28, 32, 36, 40, 44, 48, 52]
       = [None, None, None, None, None, None, None, None, None, None]"
proof -
  have "map (cells heap_full) [16, 20, 24, 28, 32, 36, 40, 44, 48, 52] = map Some ten_ints"
    by (simp add: heap_full_def ten_ints_def)
  with eleventh_push_back iterate_full eleventh_cells show ?thesis
    by (simp add: CustomContainer_size_def iterate_defs customAllocContainer_full_def)
qed

end
